theory Spec2Isabelle
  imports Main "HOL-Library.Word" "HOL-Library.Sublist"
begin

unbundle bit_operations_syntax

section \<open>InfoScraper2: data model\<close>

text \<open>
  The program is \<^verbatim>\<open>src/InfoScraper2.py\<close>. Python strings are modelled as \<open>string\<close>, with
  characters standing for the code points below 256; byte strings (\<^verbatim>\<open>response.content\<close>) are
  lists of 8-bit words. The counts and durations of \<^verbatim>\<open>CONFIG\<close> are natural numbers.
\<close>

type_synonym bytes = "8 word list"

record config =
  output_dir :: string
  max_workers :: nat
  request_timeout :: nat
  rate_limit_delay :: nat
  user_agents :: "string list"
  min_text_length :: nat
  allowed_languages :: "string list"
  blocklist_phrases :: "string list"
  storage_formats :: "string list"
  max_text_storage :: nat
  retry_attempts :: nat
  retry_backoff :: nat

definition CONFIG :: config where
  "CONFIG = \<lparr> output_dir = ''ai_training_data'', max_workers = 5, request_timeout = 15,
     rate_limit_delay = 1,
     user_agents = [''Mozilla/5.0 (Windows NT 10.0; Win64; x64) ...'',
                    ''Mozilla/5.0 (Macintosh; Intel Mac OS X 10_15_7) ...''],
     min_text_length = 500, allowed_languages = [''en''],
     blocklist_phrases = [''lorem ipsum'', ''test content''],
     storage_formats = [''jsonl'', ''parquet''],
     max_text_storage = 1000, retry_attempts = 3, retry_backoff = 2 \<rparr>"

text \<open>Every exception class that a call of the program can raise.\<close>

datatype exn =
    IndexError | URLError | UnicodeDecodeError | ValueError
  | ConnectionError | RetryError | HTTPError nat | MaxRetryAttempts
  | FeatureNotFound | LangDetectException | UnidentifiedImageError | AttributeError
  | OSError

record text_record =
  url :: string
  content :: string
  timestamp :: nat
  source_domain :: string

record image_record =
  image_url :: string
  filename :: string
  dimensions :: "nat \<times> nat"
  format :: string
  image_source_domain :: string
  image_timestamp :: nat

text \<open>
  Output paths: \<^verbatim>\<open>{output_dir}/text_{timestamp}.{ext}\<close> and
  \<^verbatim>\<open>{output_dir}/images/{filename}\<close>.
\<close>

datatype path = TextFile string nat string | ImageFile string string

datatype file_content = TextBatch "text_record list" | ImageBytes bytes

text \<open>The lines written to \<^verbatim>\<open>scraper.log\<close>, one constructor per \<^verbatim>\<open>logging\<close> call of the source.\<close>

datatype level = INFO | WARNING | ERROR

datatype message =
    FlushedTextTo path
  | SavedImage string
  | ErrorSavingImage string exn
  | ErrorDownloadingImage string exn
  | CouldNotReadRobots string exn
  | LanguageDetectionFailed exn
  | AttemptFailed nat exn
  | SkippingRobots string
  | ScrapedAndStored string
  | DidNotPassValidation string
  | ErrorScraping string exn
  | ErrorInThread exn

text \<open>
  What the program does to the outside world, in order: log lines, the fetch of a
  robots.txt, a GET put on the wire by the session (with its headers), a sleep.
\<close>

datatype event =
    Log level message
  | RobotsFetch string
  | Request string "(string \<times> string) list"
  | Sleep nat

text \<open>
  The state of a run: the two lists of \<^verbatim>\<open>StorageManager\<close>, the files written so far, the
  trace of events, and \<open>tick\<close>, the number of interactions with the outside world so far.
\<close>

record state =
  text_storage :: "text_record list"
  image_storage :: "image_record list"
  files :: "(path \<times> file_content) list"
  trace :: "event list"
  tick :: nat

definition initial_state :: state where
  "initial_state = \<lparr> text_storage = [], image_storage = [], files = [], trace = [], tick = 0 \<rparr>"

subsection \<open>The outside world\<close>

datatype http_answer = NoConnection | Answer nat bytes

text \<open>
  What \<^verbatim>\<open>RobotFileParser.read\<close> meets: \<^verbatim>\<open>urlopen\<close> fails without an HTTP status, fails with
  one, returns a body that is not UTF-8, returns a body that parses to rules, or returns a
  body on which \<^verbatim>\<open>parse\<close> raises after it has started (the rules read so far are kept).
  The parsed entries are represented by the verdict they give to user agent \<^verbatim>\<open>*\<close> on each URL.
\<close>

datatype robots_answer =
    RobotsUnreachable
  | RobotsHTTPError nat
  | RobotsUndecodable
  | RobotsRules "string \<Rightarrow> bool"
  | RobotsMalformed "string \<Rightarrow> bool"

record soup =
  select_one :: "string \<Rightarrow> string option"
  get_text :: string
  find_all_img :: "string option list"

record image_info =
  img_format :: "string option"
  img_size :: "nat \<times> nat"

text \<open>
  The collaborators the program calls but does not define, each indexed by the tick at
  which it is consulted where its answer can change over time.
\<close>

record world =
  robots_txt :: "nat \<Rightarrow> string \<Rightarrow> robots_answer"
  server :: "nat \<Rightarrow> string \<Rightarrow> http_answer"
  now :: "nat \<Rightarrow> nat"
  random_index :: "nat \<Rightarrow> nat"
  BeautifulSoup :: "bytes \<Rightarrow> exn + soup"
  textacy_pipeline :: "string \<Rightarrow> string"
  detect :: "nat \<Rightarrow> string \<Rightarrow> exn + string"
  Image_open :: "bytes \<Rightarrow> exn + image_info"
  write_fails :: "nat \<Rightarrow> path \<Rightarrow> bool"

subsection \<open>Statements that change the state and may raise\<close>

type_synonym 'a prog = "state \<Rightarrow> state \<times> (exn + 'a)"

definition ret :: "'a \<Rightarrow> 'a prog" where
  "ret x = (\<lambda>s. (s, Inr x))"

definition raise :: "exn \<Rightarrow> 'a prog" where
  "raise e = (\<lambda>s. (s, Inl e))"

definition bnd :: "'a prog \<Rightarrow> ('a \<Rightarrow> 'b prog) \<Rightarrow> 'b prog" where
  "bnd m f = (\<lambda>s. case m s of (s', Inl e) \<Rightarrow> (s', Inl e) | (s', Inr x) \<Rightarrow> f x s')"

definition try_except :: "'a prog \<Rightarrow> (exn \<Rightarrow> 'a prog) \<Rightarrow> 'a prog" where
  "try_except m h = (\<lambda>s. case m s of (s', Inl e) \<Rightarrow> h e s' | (s', Inr x) \<Rightarrow> (s', Inr x))"

definition get_state :: "state prog" where
  "get_state = (\<lambda>s. (s, Inr s))"

definition modify :: "(state \<Rightarrow> state) \<Rightarrow> unit prog" where
  "modify f = (\<lambda>s. (f s, Inr ()))"

definition emit :: "event \<Rightarrow> unit prog" where
  "emit ev = modify (\<lambda>s. s\<lparr>trace := trace s @ [ev]\<rparr>)"

definition logging :: "level \<Rightarrow> message \<Rightarrow> unit prog" where
  "logging lv m = emit (Log lv m)"

definition next_tick :: "nat prog" where
  "next_tick = (\<lambda>s. (s\<lparr>tick := Suc (tick s)\<rparr>, Inr (tick s)))"

definition datetime_now :: "world \<Rightarrow> nat prog" where
  "datetime_now w = bnd next_tick (\<lambda>t. ret (now w t))"

definition time_sleep :: "nat \<Rightarrow> unit prog" where
  "time_sleep d = emit (Sleep d)"

section \<open>Strings\<close>

text \<open>\<^verbatim>\<open>str.lower\<close> on the code points below 256: A-Z and the capital letters 192-222 but 215.\<close>

definition lower_chr :: "char \<Rightarrow> char" where
  "lower_chr c = (let n = (of_char c :: nat) in
     if (65 \<le> n \<and> n \<le> 90) \<or> (192 \<le> n \<and> n \<le> 222 \<and> n \<noteq> 215) then char_of (n + 32) else c)"

definition lower :: "string \<Rightarrow> string" where
  "lower s = map lower_chr s"

text \<open>\<^verbatim>\<open>p in t\<close> on strings: \<open>p\<close> occurs in \<open>t\<close> as a contiguous run.\<close>

fun str_in :: "string \<Rightarrow> string \<Rightarrow> bool" where
  "str_in p [] = (p = [])"
| "str_in p (c # cs) = (prefix p (c # cs) \<or> str_in p cs)"

text \<open>\<^verbatim>\<open>s.split(sep)\<close> for a one-character separator.\<close>

fun split :: "char \<Rightarrow> string \<Rightarrow> string list" where
  "split sep [] = [[]]"
| "split sep (c # cs) =
     (if c = sep then [] # split sep cs
      else (case split sep cs of [] \<Rightarrow> [[c]] | p # ps \<Rightarrow> (c # p) # ps))"

text \<open>\<^verbatim>\<open>xs[i]\<close> for a non-negative index: IndexError out of range.\<close>

definition index :: "'a list \<Rightarrow> nat \<Rightarrow> 'a prog" where
  "index xs i = (if i < length xs then ret (xs ! i) else raise IndexError)"

text \<open>
  \<^verbatim>\<open>re.sub(r'\s+', ' ', cleaned).strip()\<close>: every run of white space becomes one blank, and
  the blank at either end is dropped.
\<close>

definition is_space :: "char \<Rightarrow> bool" where
  "is_space c = (let n = (of_char c :: nat) in
     (9 \<le> n \<and> n \<le> 13) \<or> (28 \<le> n \<and> n \<le> 32) \<or> n = 133 \<or> n = 160)"

fun sub_run :: "bool \<Rightarrow> string \<Rightarrow> string" where
  "sub_run in_run [] = []"
| "sub_run in_run (c # cs) =
     (if is_space c then (if in_run then sub_run True cs else CHR '' '' # sub_run True cs)
      else c # sub_run False cs)"

definition sub_spaces :: "string \<Rightarrow> string" where
  "sub_spaces s = sub_run False s"

definition strip :: "string \<Rightarrow> string" where
  "strip s = rev (dropWhile is_space (rev (dropWhile is_space s)))"

section \<open>StorageManager\<close>

definition write_file :: "world \<Rightarrow> path \<Rightarrow> file_content \<Rightarrow> unit prog" where
  "write_file w p c = bnd next_tick (\<lambda>t.
     if write_fails w t p then raise OSError
     else modify (\<lambda>s. s\<lparr>files := files s @ [(p, c)]\<rparr>))"

definition flush_format :: "config \<Rightarrow> world \<Rightarrow> string \<Rightarrow> text_record list \<Rightarrow> nat \<Rightarrow> unit prog" where
  "flush_format cfg w ext df ts =
     (if ext \<in> set (storage_formats cfg) then
        bnd (write_file w (TextFile (output_dir cfg) ts ext) (TextBatch df)) (\<lambda>_.
        logging INFO (FlushedTextTo (TextFile (output_dir cfg) ts ext)))
      else ret ())"

definition flush_text_storage :: "config \<Rightarrow> world \<Rightarrow> unit prog" where
  "flush_text_storage cfg w =
     bnd get_state (\<lambda>s.
     if text_storage s = [] then ret ()
     else
       bnd (datetime_now w) (\<lambda>ts.
       bnd (flush_format cfg w ''jsonl'' (text_storage s) ts) (\<lambda>_.
       bnd (flush_format cfg w ''parquet'' (text_storage s) ts) (\<lambda>_.
       modify (\<lambda>s'. s'\<lparr>text_storage := []\<rparr>)))))"

definition store_text :: "config \<Rightarrow> world \<Rightarrow> text_record \<Rightarrow> unit prog" where
  "store_text cfg w data =
     bnd (modify (\<lambda>s. s\<lparr>text_storage := text_storage s @ [data]\<rparr>)) (\<lambda>_.
     bnd get_state (\<lambda>s.
     if length (text_storage s) \<ge> max_text_storage cfg then flush_text_storage cfg w
     else ret ()))"

definition store_image :: "config \<Rightarrow> world \<Rightarrow> image_record \<Rightarrow> bytes \<Rightarrow> unit prog" where
  "store_image cfg w data image_content =
     bnd (modify (\<lambda>s. s\<lparr>image_storage := image_storage s @ [data]\<rparr>)) (\<lambda>_.
     try_except
       (bnd (write_file w (ImageFile (output_dir cfg) (filename data)) (ImageBytes image_content)) (\<lambda>_.
        logging INFO (SavedImage (filename data))))
       (\<lambda>e. logging ERROR (ErrorSavingImage (filename data) e)))"

section \<open>ContentExtractor\<close>

text \<open>\<^verbatim>\<open>ContentExtractor.extract\<close> is \<open>extract_text\<close> here, and \<^verbatim>\<open>ContentExtractor.clean\<close> is \<open>clean\<close>.\<close>

fun first_match :: "soup \<Rightarrow> string list \<Rightarrow> string option" where
  "first_match sp [] = None"
| "first_match sp (selector # rest) =
     (case select_one sp selector of Some element_text \<Rightarrow> Some element_text
      | None \<Rightarrow> first_match sp rest)"

definition extract_text :: "soup \<Rightarrow> string" where
  \<open>extract_text sp = (case first_match sp [''article'', ''main'', ''[role="main"]''] of
     Some element_text \<Rightarrow> element_text | None \<Rightarrow> get_text sp)\<close>

definition clean :: "world \<Rightarrow> string \<Rightarrow> string" where
  "clean w text = strip (sub_spaces (textacy_pipeline w text))"

section \<open>hashlib.sha256\<close>

text \<open>
  \<^verbatim>\<open>hashlib.sha256(data).hexdigest()\<close> as FIPS 180-4 defines it: the padded message is cut
  into blocks of 64 bytes, each block is compressed into eight 32-bit words, and the
  digest is written as 64 lower-case hexadecimal digits.
\<close>

definition K256 :: "32 word list" where
  "K256 = [
    0x428A2F98, 0x71374491, 0xB5C0FBCF, 0xE9B5DBA5, 0x3956C25B, 0x59F111F1, 0x923F82A4, 0xAB1C5ED5,
    0xD807AA98, 0x12835B01, 0x243185BE, 0x550C7DC3, 0x72BE5D74, 0x80DEB1FE, 0x9BDC06A7, 0xC19BF174,
    0xE49B69C1, 0xEFBE4786, 0x0FC19DC6, 0x240CA1CC, 0x2DE92C6F, 0x4A7484AA, 0x5CB0A9DC, 0x76F988DA,
    0x983E5152, 0xA831C66D, 0xB00327C8, 0xBF597FC7, 0xC6E00BF3, 0xD5A79147, 0x06CA6351, 0x14292967,
    0x27B70A85, 0x2E1B2138, 0x4D2C6DFC, 0x53380D13, 0x650A7354, 0x766A0ABB, 0x81C2C92E, 0x92722C85,
    0xA2BFE8A1, 0xA81A664B, 0xC24B8B70, 0xC76C51A3, 0xD192E819, 0xD6990624, 0xF40E3585, 0x106AA070,
    0x19A4C116, 0x1E376C08, 0x2748774C, 0x34B0BCB5, 0x391C0CB3, 0x4ED8AA4A, 0x5B9CCA4F, 0x682E6FF3,
    0x748F82EE, 0x78A5636F, 0x84C87814, 0x8CC70208, 0x90BEFFFA, 0xA4506CEB, 0xBEF9A3F7, 0xC67178F2]"

type_synonym hash_state =
  "32 word \<times> 32 word \<times> 32 word \<times> 32 word \<times> 32 word \<times> 32 word \<times> 32 word \<times> 32 word"

definition H256 :: hash_state where
  "H256 = (0x6A09E667, 0xBB67AE85, 0x3C6EF372, 0xA54FF53A,
           0x510E527F, 0x9B05688C, 0x1F83D9AB, 0x5BE0CD19)"

definition rotr :: "nat \<Rightarrow> 32 word \<Rightarrow> 32 word" where
  "rotr n x = drop_bit n x OR push_bit (32 - n) x"

definition Ch :: "32 word \<Rightarrow> 32 word \<Rightarrow> 32 word \<Rightarrow> 32 word" where
  "Ch x y z = (x AND y) XOR (NOT x AND z)"

definition Maj :: "32 word \<Rightarrow> 32 word \<Rightarrow> 32 word \<Rightarrow> 32 word" where
  "Maj x y z = (x AND y) XOR (x AND z) XOR (y AND z)"

definition Sigma0 :: "32 word \<Rightarrow> 32 word" where
  "Sigma0 x = rotr 2 x XOR rotr 13 x XOR rotr 22 x"

definition Sigma1 :: "32 word \<Rightarrow> 32 word" where
  "Sigma1 x = rotr 6 x XOR rotr 11 x XOR rotr 25 x"

definition sigma0 :: "32 word \<Rightarrow> 32 word" where
  "sigma0 x = rotr 7 x XOR rotr 18 x XOR drop_bit 3 x"

definition sigma1 :: "32 word \<Rightarrow> 32 word" where
  "sigma1 x = rotr 17 x XOR rotr 19 x XOR drop_bit 10 x"

definition be_word :: "bytes \<Rightarrow> 32 word" where
  "be_word bs = foldl (\<lambda>acc b. push_bit 8 acc OR ucast b) 0 bs"

definition be_bytes64 :: "64 word \<Rightarrow> bytes" where
  "be_bytes64 n = map (\<lambda>i. ucast (drop_bit (8 * (7 - i)) n)) [0..<8]"

definition pad :: "bytes \<Rightarrow> bytes" where
  "pad msg = msg @ [0x80] @ replicate ((119 - length msg mod 64) mod 64) 0
             @ be_bytes64 (of_nat (8 * length msg))"

primrec chunks :: "nat \<Rightarrow> nat \<Rightarrow> 'a list \<Rightarrow> 'a list list" where
  "chunks sz 0 xs = []"
| "chunks sz (Suc k) xs = take sz xs # chunks sz k (drop sz xs)"

primrec schedule :: "nat \<Rightarrow> 32 word list \<Rightarrow> 32 word list" where
  "schedule 0 ws = ws"
| "schedule (Suc n) ws =
     (let l = length ws in
      schedule n (ws @ [sigma1 (ws ! (l - 2)) + ws ! (l - 7) + sigma0 (ws ! (l - 15)) + ws ! (l - 16)]))"

definition round256 :: "hash_state \<Rightarrow> 32 word \<times> 32 word \<Rightarrow> hash_state" where
  "round256 st kw = (case st of (a, b, c, d, e, f, g, h) \<Rightarrow>
     let t1 = h + Sigma1 e + Ch e f g + fst kw + snd kw;
         t2 = Sigma0 a + Maj a b c
     in (t1 + t2, a, b, c, d + t1, e, f, g))"

definition add_state :: "hash_state \<Rightarrow> hash_state \<Rightarrow> hash_state" where
  "add_state x y = (case x of (a, b, c, d, e, f, g, h) \<Rightarrow>
     case y of (a', b', c', d', e', f', g', h') \<Rightarrow>
       (a + a', b + b', c + c', d + d', e + e', f + f', g + g', h + h'))"

definition compress :: "hash_state \<Rightarrow> bytes \<Rightarrow> hash_state" where
  "compress st block =
     add_state st (foldl round256 st (zip K256 (schedule 48 (map be_word (chunks 4 16 block)))))"

definition sha256 :: "bytes \<Rightarrow> hash_state" where
  "sha256 msg = foldl compress H256 (chunks 64 (length (pad msg) div 64) (pad msg))"

definition hex_digit :: "nat \<Rightarrow> char" where
  "hex_digit n = (if n < 10 then char_of (48 + n) else char_of (87 + n))"

definition hex_word :: "32 word \<Rightarrow> string" where
  "hex_word x = map (\<lambda>i. hex_digit (unat (drop_bit (4 * (7 - i)) x AND 15))) [0..<8]"

definition sha256_hexdigest :: "bytes \<Rightarrow> string" where
  "sha256_hexdigest msg = (case sha256 msg of (a, b, c, d, e, f, g, h) \<Rightarrow>
     hex_word a @ hex_word b @ hex_word c @ hex_word d @
     hex_word e @ hex_word f @ hex_word g @ hex_word h)"

section \<open>urllib.robotparser\<close>

text \<open>
  The standard library's \<^verbatim>\<open>RobotFileParser\<close> (CPython, \<^verbatim>\<open>Lib/urllib/robotparser.py\<close>), as far
  as the program uses it. The constructor sets \<^verbatim>\<open>disallow_all\<close> and \<^verbatim>\<open>allow_all\<close> to False,
  \<^verbatim>\<open>last_checked\<close> to 0, and no entries. \<^verbatim>\<open>read\<close> calls \<^verbatim>\<open>urlopen\<close>: an \<^verbatim>\<open>HTTPError\<close> is caught
  inside \<^verbatim>\<open>read\<close> and sets \<^verbatim>\<open>disallow_all\<close> for 401 and 403, \<^verbatim>\<open>allow_all\<close> for the other codes
  from 400 to 499; any other exception of \<^verbatim>\<open>urlopen\<close>, and a body that is not UTF-8, leave
  \<^verbatim>\<open>read\<close> with the parser as it was; otherwise \<^verbatim>\<open>parse\<close> sets \<^verbatim>\<open>last_checked\<close> to the time
  before it reads the lines. \<^verbatim>\<open>can_fetch\<close> answers False when \<^verbatim>\<open>disallow_all\<close>, True when
  \<^verbatim>\<open>allow_all\<close>, False while \<^verbatim>\<open>last_checked\<close> is 0 (its comment: until the file has been read
  or found not to exist, no URL is assumed allowable), and else consults the entries.

  \<open>last_checked\<close> is the truth value of the attribute. \<open>read\<close> returns the parser as it
  leaves it, with the exception it raised, if any.
\<close>

record robot_file_parser =
  entries :: "string \<Rightarrow> bool"
  disallow_all :: bool
  allow_all :: bool
  robots_url :: string
  last_checked :: bool

definition RobotFileParser :: robot_file_parser where
  "RobotFileParser = \<lparr> entries = (\<lambda>_. True), disallow_all = False, allow_all = False,
     robots_url = [], last_checked = False \<rparr>"

definition set_url :: "robot_file_parser \<Rightarrow> string \<Rightarrow> robot_file_parser" where
  "set_url rp u = rp\<lparr>robots_url := u\<rparr>"

definition read :: "world \<Rightarrow> robot_file_parser \<Rightarrow> (robot_file_parser \<times> exn option) prog" where
  "read w rp =
     bnd (emit (RobotsFetch (robots_url rp))) (\<lambda>_.
     bnd next_tick (\<lambda>t.
     case robots_txt w t (robots_url rp) of
       RobotsUnreachable \<Rightarrow> ret (rp, Some URLError)
     | RobotsHTTPError code \<Rightarrow>
         ret (if code = 401 \<or> code = 403 then rp\<lparr>disallow_all := True\<rparr>
              else if code \<ge> 400 \<and> code < 500 then rp\<lparr>allow_all := True\<rparr>
              else rp, None)
     | RobotsUndecodable \<Rightarrow> ret (rp, Some UnicodeDecodeError)
     | RobotsRules r \<Rightarrow> ret (rp\<lparr>last_checked := True, entries := r\<rparr>, None)
     | RobotsMalformed r \<Rightarrow> ret (rp\<lparr>last_checked := True, entries := r\<rparr>, Some ValueError)))"

text \<open>\<^verbatim>\<open>rp.can_fetch("*", url)\<close>.\<close>

definition can_fetch :: "robot_file_parser \<Rightarrow> string \<Rightarrow> bool" where
  "can_fetch rp u =
     (if disallow_all rp then False
      else if allow_all rp then True
      else if \<not> last_checked rp then False
      else entries rp u)"

section \<open>requests.Session with the retrying adapter\<close>

record response =
  status_code :: nat
  response_content :: bytes

definition status_forcelist :: "nat list" where
  "status_forcelist = [429, 500, 502, 503, 504]"

text \<open>
  One \<^verbatim>\<open>session.get\<close> through the adapter mounted by \<^verbatim>\<open>_init_session\<close>: the request is
  put on the wire; a connection failure or a status of the force list is tried again
  while the count of retries lasts, and raises when it is used up. The adapter's own pauses between
  its tries are not recorded.
\<close>

fun urlopen :: "world \<Rightarrow> nat \<Rightarrow> string \<Rightarrow> (string \<times> string) list \<Rightarrow> response prog" where
  "urlopen w 0 u hs =
     bnd (emit (Request u hs)) (\<lambda>_.
     bnd next_tick (\<lambda>t.
     case server w t u of
       NoConnection \<Rightarrow> raise ConnectionError
     | Answer st body \<Rightarrow>
         if st \<in> set status_forcelist then raise RetryError
         else ret \<lparr> status_code = st, response_content = body \<rparr>))"
| "urlopen w (Suc retries_left) u hs =
     bnd (emit (Request u hs)) (\<lambda>_.
     bnd next_tick (\<lambda>t.
     case server w t u of
       NoConnection \<Rightarrow> urlopen w retries_left u hs
     | Answer st body \<Rightarrow>
         if st \<in> set status_forcelist then urlopen w retries_left u hs
         else ret \<lparr> status_code = st, response_content = body \<rparr>))"

definition session_get :: "config \<Rightarrow> world \<Rightarrow> string \<Rightarrow> (string \<times> string) list \<Rightarrow> response prog" where
  "session_get cfg w u hs = urlopen w (retry_attempts cfg) u hs"

definition raise_for_status :: "response \<Rightarrow> unit prog" where
  "raise_for_status r =
     (if 400 \<le> status_code r \<and> status_code r < 600 then raise (HTTPError (status_code r))
      else ret ())"

section \<open>ImageDownloader\<close>

definition image_filename :: "string \<Rightarrow> bytes \<Rightarrow> string \<Rightarrow> string" where
  "image_filename domain image_content fmt =
     domain @ ''_'' @ sha256_hexdigest image_content @ ''.'' @ lower fmt"

text \<open>The body of the \<^verbatim>\<open>try\<close> of \<^verbatim>\<open>download\<close>, then \<^verbatim>\<open>download\<close> with its handler.\<close>

definition download_body :: "config \<Rightarrow> world \<Rightarrow> string \<Rightarrow> string \<Rightarrow> unit prog" where
  "download_body cfg w u domain =
     bnd (session_get cfg w u []) (\<lambda>r.
     bnd (raise_for_status r) (\<lambda>_.
     case Image_open w (response_content r) of
       Inl e \<Rightarrow> raise e
     | Inr img \<Rightarrow>
        (case img_format img of
           None \<Rightarrow> raise AttributeError
         | Some fmt \<Rightarrow>
             bnd (datetime_now w) (\<lambda>ts.
             store_image cfg w
               \<lparr> image_url = u,
                 filename = image_filename domain (response_content r) fmt,
                 dimensions = img_size img, format = fmt,
                 image_source_domain = domain, image_timestamp = ts \<rparr>
               (response_content r)))))"

definition download :: "config \<Rightarrow> world \<Rightarrow> string \<Rightarrow> string \<Rightarrow> unit prog" where
  "download cfg w u domain =
     try_except (download_body cfg w u domain) (\<lambda>e. logging ERROR (ErrorDownloadingImage u e))"

section \<open>AIDataScraper\<close>

definition get_robots_parser :: "world \<Rightarrow> string \<Rightarrow> robot_file_parser prog" where
  "get_robots_parser w domain =
     bnd (read w (set_url RobotFileParser (domain @ ''/robots.txt''))) (\<lambda>(rp, raised).
     case raised of
       Some e \<Rightarrow> bnd (logging WARNING (CouldNotReadRobots domain e)) (\<lambda>_. ret rp)
     | None \<Rightarrow> ret rp)"

definition validate_content :: "config \<Rightarrow> world \<Rightarrow> string \<Rightarrow> bool prog" where
  "validate_content cfg w text =
     (if length text < min_text_length cfg then ret False
      else if list_ex (\<lambda>phrase. str_in (lower phrase) (lower text)) (blocklist_phrases cfg)
      then ret False
      else
        bnd next_tick (\<lambda>t.
        case detect w t text of
          Inl e \<Rightarrow> bnd (logging WARNING (LanguageDetectionFailed e)) (\<lambda>_. ret False)
        | Inr lang \<Rightarrow> if lang \<notin> set (allowed_languages cfg) then ret False else ret True))"

text \<open>The loop of \<^verbatim>\<open>retry_request\<close> over \<^verbatim>\<open>range(1, attempts + 1)\<close>.\<close>

fun attempt_loop :: "config \<Rightarrow> 'a prog \<Rightarrow> nat list \<Rightarrow> 'a prog" where
  "attempt_loop cfg func [] = raise MaxRetryAttempts"
| "attempt_loop cfg func (attempt # rest) =
     try_except func (\<lambda>e.
       bnd (logging ERROR (AttemptFailed attempt e)) (\<lambda>_.
       bnd (if attempt < retry_attempts cfg then time_sleep (retry_backoff cfg ^ attempt)
            else ret ()) (\<lambda>_.
       attempt_loop cfg func rest)))"

definition retry_request :: "config \<Rightarrow> 'a prog \<Rightarrow> 'a prog" where
  "retry_request cfg func = attempt_loop cfg func [1..<Suc (retry_attempts cfg)]"

definition random_choice :: "world \<Rightarrow> 'a list \<Rightarrow> 'a prog" where
  "random_choice w xs =
     bnd next_tick (\<lambda>t.
     if xs = [] then raise IndexError else ret (xs ! (random_index w t mod length xs)))"

definition make_soup :: "world \<Rightarrow> bytes \<Rightarrow> soup prog" where
  "make_soup w markup = (case BeautifulSoup w markup of Inl e \<Rightarrow> raise e | Inr sp \<Rightarrow> ret sp)"

text \<open>The loop over \<^verbatim>\<open>soup.find_all('img')\<close>; each element is the value of \<^verbatim>\<open>img.get('src')\<close>.\<close>

fun process_images :: "config \<Rightarrow> world \<Rightarrow> string option list \<Rightarrow> string \<Rightarrow> unit prog" where
  "process_images cfg w [] domain = ret ()"
| "process_images cfg w (img # rest) domain =
     bnd (case img of
            None \<Rightarrow> ret ()
          | Some img_url \<Rightarrow>
              if img_url \<noteq> [] \<and> prefix ''http'' img_url then download cfg w img_url domain
              else ret ()) (\<lambda>_.
     process_images cfg w rest domain)"

text \<open>
  The body of the \<^verbatim>\<open>try\<close> of \<^verbatim>\<open>scrape_page\<close>, in two parts: up to the robots check, and
  \<open>fetch_and_process\<close>, all that follows it (the fetch of the page, the text, the images);
  then \<^verbatim>\<open>scrape_page\<close> with its handler.
\<close>

definition fetch_and_process :: "config \<Rightarrow> world \<Rightarrow> string \<Rightarrow> string \<Rightarrow> unit prog" where
  "fetch_and_process cfg w u domain =
     bnd (random_choice w (user_agents cfg)) (\<lambda>agent.
     bnd (time_sleep (rate_limit_delay cfg)) (\<lambda>_.
     bnd (retry_request cfg
            (session_get cfg w u
               [(''User-Agent'', agent), (''Accept-Language'', ''en-US,en;q=0.9'')])) (\<lambda>r.
     bnd (raise_for_status r) (\<lambda>_.
     bnd (make_soup w (response_content r)) (\<lambda>sp.
     bnd (validate_content cfg w (clean w (extract_text sp))) (\<lambda>valid.
     bnd (if valid then
            bnd (datetime_now w) (\<lambda>ts.
            bnd (store_text cfg w
                   \<lparr> url = u, content = clean w (extract_text sp), timestamp = ts,
                     source_domain = domain \<rparr>) (\<lambda>_.
            logging INFO (ScrapedAndStored u)))
          else logging INFO (DidNotPassValidation u)) (\<lambda>_.
     process_images cfg w (find_all_img sp) domain)))))))"

definition scrape_page_body :: "config \<Rightarrow> world \<Rightarrow> string \<Rightarrow> unit prog" where
  "scrape_page_body cfg w u =
     bnd (index (split CHR ''/'' u) 2) (\<lambda>domain.
     bnd (get_robots_parser w (''https://'' @ domain)) (\<lambda>rp.
     if \<not> can_fetch rp u then logging WARNING (SkippingRobots u)
     else fetch_and_process cfg w u domain))"

definition scrape_page :: "config \<Rightarrow> world \<Rightarrow> string \<Rightarrow> unit prog" where
  "scrape_page cfg w u =
     try_except (scrape_page_body cfg w u) (\<lambda>e. logging ERROR (ErrorScraping u e))"



section \<open>Observations on a run\<close>

text \<open>The robots.txt URLs fetched, in order, and the robots.txt URL a task fetches, if any.\<close>

fun robots_fetches :: "event list \<Rightarrow> string list" where
  "robots_fetches [] = []"
| "robots_fetches (RobotsFetch u # evs) = u # robots_fetches evs"
| "robots_fetches (ev # evs) = robots_fetches evs"



text \<open>The files of one flush: one per enabled format, all with the time stamp of the flush.\<close>

definition batch_files :: "config \<Rightarrow> nat \<Rightarrow> text_record list \<Rightarrow> (path \<times> file_content) list" where
  "batch_files cfg ts df =
     map (\<lambda>ext. (TextFile (output_dir cfg) ts ext, TextBatch df))
       (filter (\<lambda>ext. ext \<in> set (storage_formats cfg)) [''jsonl'', ''parquet''])"

fun is_text_file :: "path \<times> file_content \<Rightarrow> bool" where
  "is_text_file (TextFile d ts ext, c) = True"
| "is_text_file (ImageFile d name, c) = False"

text \<open>
  A statement takes every state to one related to it by \<open>R\<close>. The three relations used:
  the text side of the storage is untouched; no robots.txt is fetched; the trace only grows.
\<close>

definition steps :: "(state \<Rightarrow> state \<Rightarrow> bool) \<Rightarrow> 'a prog \<Rightarrow> bool" where
  "steps R m \<longleftrightarrow> (\<forall>s. R s (fst (m s)))"

definition same_text :: "state \<Rightarrow> state \<Rightarrow> bool" where
  "same_text s s' \<longleftrightarrow>
     text_storage s' = text_storage s \<and> filter is_text_file (files s') = filter is_text_file (files s)"

definition same_robots :: "state \<Rightarrow> state \<Rightarrow> bool" where
  "same_robots s s' \<longleftrightarrow> robots_fetches (trace s') = robots_fetches (trace s)"

definition grows :: "state \<Rightarrow> state \<Rightarrow> bool" where
  "grows s s' \<longleftrightarrow> prefix (trace s) (trace s')"


section \<open>A concrete world\<close>

text \<open>
  One site serves an article of 600 characters with two images, a valid PNG and one that
  answers 404; every other page answers 404, but one host that always answers 503. The
  robots.txt of one host cannot be reached; all others allow everything.
\<close>

definition article_text :: string where
  "article_text = replicate 600 (CHR ''a'')"

definition page_bytes :: bytes where
  "page_bytes = [0x3C, 0x68, 0x74, 0x6D, 0x6C, 0x3E]"

definition png_bytes :: bytes where
  "png_bytes = [0x89, 0x50, 0x4E, 0x47, 0x0D, 0x0A, 0x1A, 0x0A]"

definition example_soup :: soup where
  "example_soup = \<lparr> select_one = (\<lambda>selector. if selector = ''article'' then Some article_text else None),
     get_text = article_text,
     find_all_img = [Some ''https://example.com/a.png'', Some ''https://example.com/gone.png''] \<rparr>"

definition example_world :: world where
  "example_world = \<lparr>
     robots_txt = (\<lambda>t u. if u = ''https://offline.example/robots.txt'' then RobotsUnreachable
                          else RobotsRules (\<lambda>_. True)),
     server = (\<lambda>t u. if u = ''https://example.com/article1'' then Answer 200 page_bytes
                      else if u = ''https://example.com/a.png'' then Answer 200 png_bytes
                      else if u = ''https://busy.example/page'' then Answer 503 []
                      else Answer 404 []),
     now = (\<lambda>t. t),
     random_index = (\<lambda>t. 0),
     BeautifulSoup = (\<lambda>markup. Inr example_soup),
     textacy_pipeline = (\<lambda>text. text),
     detect = (\<lambda>t text. Inr ''en''),
     Image_open = (\<lambda>data. if data = png_bytes then Inr \<lparr> img_format = Some ''PNG'', img_size = (1, 1) \<rparr>
                           else Inl UnidentifiedImageError),
     write_fails = (\<lambda>t p. False) \<rparr>"

section \<open>Basic facts\<close>

lemmas prog_defs = bnd_def ret_def raise_def try_except_def modify_def get_state_def emit_def
  logging_def next_tick_def datetime_now_def time_sleep_def


section \<open>Content validation\<close>

text \<open>
  C8. A text shorter than \<open>min_text_length\<close> is rejected by \<open>validate_content\<close>, whatever
  the language detector would answer (any world \<open>w\<close>) and whatever the blocklist holds (any
  configuration): the length test comes first, and nothing is logged or consulted.
\<close>

theorem validate_content_short:
  "length text < min_text_length cfg \<Longrightarrow> validate_content cfg w text s = (s, Inr False)"
  by (simp add: validate_content_def ret_def)

theorem validate_content_short_witness:
  "length ''lorem ipsum'' < min_text_length CONFIG
   \<and> validate_content CONFIG example_world ''lorem ipsum'' initial_state = (initial_state, Inr False)"
  using validate_content_short [of "''lorem ipsum''" CONFIG example_world initial_state]
  by (simp add: CONFIG_def)




section \<open>Which images are downloaded\<close>






section \<open>The text buffer\<close>

lemma flush_returns:
  assumes "snd (flush_text_storage cfg w s) = Inr ()"
  shows "text_storage (fst (flush_text_storage cfg w s)) = []"
    and "text_storage s \<noteq> [] \<Longrightarrow> files (fst (flush_text_storage cfg w s)) = files s @ batch_files cfg (now w (tick s)) (text_storage s)"
  using assms
  by (auto simp: flush_text_storage_def flush_format_def write_file_def prog_defs batch_files_def
      split: if_splits prod.splits sum.splits)

text \<open>
  C7. Whatever the state before it (so after any sequence of earlier calls), a call of
  \<open>store_text\<close> that returns leaves fewer than \<open>max_text_storage\<close> records in the buffer,
  for a positive \<open>max_text_storage\<close>. When the record stored brings the buffer to exactly
  \<open>max_text_storage\<close>, one flush happens: the buffer is empty afterwards and the files
  gained are those of one batch, one file per enabled format with one time stamp, each
  holding the whole buffer. Below the threshold nothing is written and the record is only
  appended.
\<close>

theorem store_text_threshold:
  assumes "0 < max_text_storage cfg" and "snd (store_text cfg w r s) = Inr ()"
  shows "length (text_storage (fst (store_text cfg w r s))) < max_text_storage cfg
    \<and> (Suc (length (text_storage s)) = max_text_storage cfg \<longrightarrow>
         text_storage (fst (store_text cfg w r s)) = []
         \<and> files (fst (store_text cfg w r s)) =
             files s @ batch_files cfg (now w (tick s)) (text_storage s @ [r]))
    \<and> (Suc (length (text_storage s)) < max_text_storage cfg \<longrightarrow>
         fst (store_text cfg w r s) = s\<lparr>text_storage := text_storage s @ [r]\<rparr>)"
proof -
  let ?s1 = "s\<lparr>text_storage := text_storage s @ [r]\<rparr>"
  have st: "store_text cfg w r s =
     (if length (text_storage s) + 1 \<ge> max_text_storage cfg then flush_text_storage cfg w ?s1
      else (?s1, Inr ()))"
    by (simp add: store_text_def prog_defs)
  show ?thesis
  proof (cases "length (text_storage s) + 1 \<ge> max_text_storage cfg")
    case True
    with st have eq: "store_text cfg w r s = flush_text_storage cfg w ?s1" by simp
    with assms(2) have ok: "snd (flush_text_storage cfg w ?s1) = Inr ()" by simp
    from flush_returns(1)[OF ok] flush_returns(2)[OF ok] assms(1) True show ?thesis
      by (simp add: eq)
  next
    case False
    with st show ?thesis by simp
  qed
qed

theorem store_text_threshold_witness:
  "0 < max_text_storage (CONFIG\<lparr>max_text_storage := 2\<rparr>)
   \<and> snd (store_text (CONFIG\<lparr>max_text_storage := 2\<rparr>) example_world
        \<lparr>url = ''u2'', content = ''c2'', timestamp = 1, source_domain = ''d''\<rparr>
        (initial_state\<lparr>text_storage := [\<lparr>url = ''u1'', content = ''c1'', timestamp = 0, source_domain = ''d''\<rparr>]\<rparr>)) = Inr ()
   \<and> Suc (length (text_storage (initial_state\<lparr>text_storage := [\<lparr>url = ''u1'', content = ''c1'', timestamp = 0, source_domain = ''d''\<rparr>]\<rparr>)))
       = max_text_storage (CONFIG\<lparr>max_text_storage := 2\<rparr>)
   \<and> text_storage (fst (store_text (CONFIG\<lparr>max_text_storage := 2\<rparr>) example_world
        \<lparr>url = ''u2'', content = ''c2'', timestamp = 1, source_domain = ''d''\<rparr>
        (initial_state\<lparr>text_storage := [\<lparr>url = ''u1'', content = ''c1'', timestamp = 0, source_domain = ''d''\<rparr>]\<rparr>))) = []"
proof -
  let ?cfg = "CONFIG\<lparr>max_text_storage := 2\<rparr>"
  let ?r = "\<lparr>url = ''u2'', content = ''c2'', timestamp = 1, source_domain = ''d''\<rparr>"
  let ?s = "initial_state\<lparr>text_storage := [\<lparr>url = ''u1'', content = ''c1'', timestamp = 0, source_domain = ''d''\<rparr>]\<rparr>"
  have a: "0 < max_text_storage ?cfg" by simp
  have b: "snd (store_text ?cfg example_world ?r ?s) = Inr ()"
    by (simp add: CONFIG_def store_text_def flush_text_storage_def flush_format_def write_file_def
        prog_defs initial_state_def example_world_def)
  have c: "Suc (length (text_storage ?s)) = max_text_storage ?cfg" by simp
  from a b c store_text_threshold [OF a b] show ?thesis by blast
qed

section \<open>Retries\<close>











section \<open>robots.txt\<close>

lemma can_fetch_unread: "\<not> can_fetch (set_url RobotFileParser x) v"
  by (simp add: can_fetch_def set_url_def RobotFileParser_def)

lemma get_robots_parser_unread:
  assumes "robots_txt w (tick s) (D @ ''/robots.txt'') = a"
    and "a = RobotsUnreachable \<or> a = RobotsUndecodable"
  shows "get_robots_parser w D s =
     (s\<lparr>trace := trace s @ [RobotsFetch (D @ ''/robots.txt''),
            Log WARNING (CouldNotReadRobots D (if a = RobotsUnreachable then URLError else UnicodeDecodeError))],
        tick := Suc (tick s)\<rparr>,
      Inr (set_url RobotFileParser (D @ ''/robots.txt'')))"
  using assms
  by (auto simp: get_robots_parser_def read_def set_url_def RobotFileParser_def prog_defs)

text \<open>
  C1. What the program does when the read of robots.txt raises before \<^verbatim>\<open>parse\<close> has begun
  (the host cannot be reached, or the body is not UTF-8): the warning is logged, the parser
  returned has never been read, \<open>can_fetch\<close> answers False for every URL, and the task is
  skipped with no request for the page.
\<close>

theorem robots_unreadable_skips_task:
  assumes "2 < length (split CHR ''/'' u)"
    and "robots_txt w (tick s) (''https://'' @ split CHR ''/'' u ! 2 @ ''/robots.txt'') = a"
    and "a = RobotsUnreachable \<or> a = RobotsUndecodable"
  shows "scrape_page cfg w u s =
     (s\<lparr>trace := trace s @
          [RobotsFetch (''https://'' @ split CHR ''/'' u ! 2 @ ''/robots.txt''),
           Log WARNING (CouldNotReadRobots (''https://'' @ split CHR ''/'' u ! 2)
                          (if a = RobotsUnreachable then URLError else UnicodeDecodeError)),
           Log WARNING (SkippingRobots u)],
        tick := Suc (tick s)\<rparr>, Inr ())
   \<and> (\<exists>rp. snd (get_robots_parser w (''https://'' @ split CHR ''/'' u ! 2) s) = Inr rp
            \<and> (\<forall>v. \<not> can_fetch rp v))"
proof -
  let ?D = "''https://'' @ split CHR ''/'' u ! 2"
  have r: "robots_txt w (tick s) (?D @ ''/robots.txt'') = a"
    using assms(2) by simp
  note g = get_robots_parser_unread [OF r assms(3)]
  have "scrape_page_body cfg w u s =
     (s\<lparr>trace := trace s @
          [RobotsFetch (''https://'' @ split CHR ''/'' u ! 2 @ ''/robots.txt''),
           Log WARNING (CouldNotReadRobots ?D
                          (if a = RobotsUnreachable then URLError else UnicodeDecodeError)),
           Log WARNING (SkippingRobots u)],
        tick := Suc (tick s)\<rparr>, Inr ())"
    using assms(1) g
    by (simp add: scrape_page_body_def index_def bnd_def ret_def can_fetch_unread logging_def emit_def modify_def)
  then have "scrape_page cfg w u s =
     (s\<lparr>trace := trace s @
          [RobotsFetch (''https://'' @ split CHR ''/'' u ! 2 @ ''/robots.txt''),
           Log WARNING (CouldNotReadRobots ?D
                          (if a = RobotsUnreachable then URLError else UnicodeDecodeError)),
           Log WARNING (SkippingRobots u)],
        tick := Suc (tick s)\<rparr>, Inr ())"
    by (simp add: scrape_page_def try_except_def)
  moreover have "\<exists>rp. snd (get_robots_parser w ?D s) = Inr rp \<and> (\<forall>v. \<not> can_fetch rp v)"
    using g can_fetch_unread by simp
  ultimately show ?thesis by blast
qed

theorem robots_unreadable_skips_task_witness:
  "2 < length (split CHR ''/'' ''https://offline.example/page'')
   \<and> robots_txt example_world (tick initial_state)
        (''https://'' @ split CHR ''/'' ''https://offline.example/page'' ! 2 @ ''/robots.txt'') = RobotsUnreachable
   \<and> scrape_page CONFIG example_world ''https://offline.example/page'' initial_state =
       (initial_state\<lparr>trace := 
          [RobotsFetch ''https://offline.example/robots.txt'',
           Log WARNING (CouldNotReadRobots ''https://offline.example'' URLError),
           Log WARNING (SkippingRobots ''https://offline.example/page'')],
        tick := 1\<rparr>, Inr ())"
proof -
  have a: "2 < length (split CHR ''/'' ''https://offline.example/page'')"
    by simp
  have b: "robots_txt example_world (tick initial_state)
        (''https://'' @ split CHR ''/'' ''https://offline.example/page'' ! 2 @ ''/robots.txt'') = RobotsUnreachable"
    by (simp add: example_world_def)
  from robots_unreadable_skips_task [OF a b, of CONFIG] a b show ?thesis
    by (simp add: initial_state_def)
qed

section \<open>What a statement leaves untouched\<close>

lemma steps_ret: "reflp R \<Longrightarrow> steps R (ret x)"
  by (simp add: steps_def ret_def reflp_def)

lemma steps_raise: "reflp R \<Longrightarrow> steps R (raise e)"
  by (simp add: steps_def raise_def reflp_def)

lemma steps_bnd:
  assumes "transp R" and "steps R m" and "\<And>x. steps R (f x)"
  shows "steps R (bnd m f)"
  unfolding steps_def
proof
  fix s
  obtain s' r where ms: "m s = (s', r)" by (cases "m s")
  with assms(2) have 1: "R s s'" by (auto simp: steps_def dest: spec [of _ s])
  show "R s (fst (bnd m f s))"
  proof (cases r)
    case (Inl e)
    with ms 1 show ?thesis by (simp add: bnd_def)
  next
    case (Inr x)
    from assms(3) [of x] have "R s' (fst (f x s'))" by (simp add: steps_def)
    with 1 assms(1) have "R s (fst (f x s'))" by (meson transpD)
    with ms Inr show ?thesis by (simp add: bnd_def)
  qed
qed

lemma steps_try_except:
  assumes "transp R" and "steps R m" and "\<And>e. steps R (h e)"
  shows "steps R (try_except m h)"
  unfolding steps_def
proof
  fix s
  obtain s' r where ms: "m s = (s', r)" by (cases "m s")
  with assms(2) have 1: "R s s'" by (auto simp: steps_def dest: spec [of _ s])
  show "R s (fst (try_except m h s))"
  proof (cases r)
    case (Inr x)
    with ms 1 show ?thesis by (simp add: try_except_def)
  next
    case (Inl e)
    from assms(3) [of e] have "R s' (fst (h e s'))" by (simp add: steps_def)
    with 1 assms(1) have "R s (fst (h e s'))" by (meson transpD)
    with ms Inl show ?thesis by (simp add: try_except_def)
  qed
qed

lemma steps_if: "steps R a \<Longrightarrow> steps R b \<Longrightarrow> steps R (if c then a else b)"
  by simp

lemma steps_case_sum:
  "(\<And>e. steps R (f e)) \<Longrightarrow> (\<And>x. steps R (g x)) \<Longrightarrow> steps R (case v of Inl e \<Rightarrow> f e | Inr x \<Rightarrow> g x)"
  by (cases v) simp_all

lemma steps_case_option:
  "steps R a \<Longrightarrow> (\<And>x. steps R (g x)) \<Longrightarrow> steps R (case v of None \<Rightarrow> a | Some x \<Rightarrow> g x)"
  by (cases v) simp_all

lemma robots_fetches_append: "robots_fetches (xs @ ys) = robots_fetches xs @ robots_fetches ys"
  by (induction xs rule: robots_fetches.induct) simp_all

lemma same_text_pre: "reflp same_text" "transp same_text"
  by (auto simp: reflp_def transp_def same_text_def)

lemma same_robots_pre: "reflp same_robots" "transp same_robots"
  by (auto simp: reflp_def transp_def same_robots_def)

lemmas rel_defs = steps_def same_text_def same_robots_def robots_fetches_append

lemma urlopen_quiet: "steps same_text (urlopen w n u hs) \<and> steps same_robots (urlopen w n u hs)"
proof (induction n)
  case 0
  show ?case by (auto simp: rel_defs prog_defs split: http_answer.splits)
next
  case (Suc n)
  then show ?case
    by (auto simp: rel_defs prog_defs split: http_answer.splits)
qed

lemma session_get_quiet:
  "steps same_text (session_get cfg w u hs)" "steps same_robots (session_get cfg w u hs)"
  by (simp_all add: session_get_def urlopen_quiet)

lemma raise_for_status_quiet:
  "steps same_text (raise_for_status r)" "steps same_robots (raise_for_status r)"
  by (auto simp: rel_defs raise_for_status_def prog_defs)

lemma datetime_now_quiet:
  "steps same_text (datetime_now w)" "steps same_robots (datetime_now w)"
  by (auto simp: rel_defs prog_defs)

lemma logging_quiet:
  "steps same_text (logging lv m)" "steps same_robots (logging lv m)"
  by (auto simp: rel_defs prog_defs)

lemma store_image_quiet:
  "steps same_text (store_image cfg w data bs)" "steps same_robots (store_image cfg w data bs)"
  by (auto simp: rel_defs store_image_def write_file_def prog_defs)

lemmas text_intros = steps_bnd [OF same_text_pre(2)] steps_try_except [OF same_text_pre(2)]
  steps_ret [OF same_text_pre(1)] steps_raise [OF same_text_pre(1)] steps_if steps_case_sum
  steps_case_option session_get_quiet(1) raise_for_status_quiet(1) datetime_now_quiet(1)
  logging_quiet(1) store_image_quiet(1)

lemmas robots_intros = steps_bnd [OF same_robots_pre(2)] steps_try_except [OF same_robots_pre(2)]
  steps_ret [OF same_robots_pre(1)] steps_raise [OF same_robots_pre(1)] steps_if steps_case_sum
  steps_case_option session_get_quiet(2) raise_for_status_quiet(2) datetime_now_quiet(2)
  logging_quiet(2) store_image_quiet(2)

lemma download_quiet:
  "steps same_text (download cfg w u d)" "steps same_robots (download cfg w u d)"
  unfolding download_def download_body_def
  by (intro text_intros, intro robots_intros)

lemma process_images_quiet:
  "steps same_text (process_images cfg w imgs d) \<and> steps same_robots (process_images cfg w imgs d)"
proof (induction imgs)
  case Nil
  show ?case by (simp add: steps_ret same_text_pre same_robots_pre)
next
  case (Cons img imgs)
  then show ?case
    by (auto intro!: text_intros robots_intros download_quiet)
qed


lemma write_file_robots: "steps same_robots (write_file w p c)"
  by (auto simp: rel_defs write_file_def prog_defs)









section \<open>The tasks of a run\<close>



lemma handled_returns: "snd (try_except m (\<lambda>e. logging lv (msg e)) s) = Inr ()"
  by (auto simp: prog_defs split: prod.splits sum.splits)













lemma handled_logs:
  "snd (m s) = Inl e \<Longrightarrow>
   fst (try_except m (\<lambda>e. logging lv (msg e)) s) = (fst (m s))\<lparr>trace := trace (fst (m s)) @ [Log lv (msg e)]\<rparr>"
  by (cases "m s") (simp add: prog_defs)


section \<open>The concrete world, evaluated\<close>

lemma ew_sel:
  "robots_txt example_world = (\<lambda>t u. if u = ''https://offline.example/robots.txt'' then RobotsUnreachable
                          else RobotsRules (\<lambda>_. True))"
  "server example_world = (\<lambda>t u. if u = ''https://example.com/article1'' then Answer 200 page_bytes
                      else if u = ''https://example.com/a.png'' then Answer 200 png_bytes
                      else if u = ''https://busy.example/page'' then Answer 503 []
                      else Answer 404 [])"
  "now example_world = (\<lambda>t. t)"
  "random_index example_world = (\<lambda>t. 0)"
  "BeautifulSoup example_world = (\<lambda>markup. Inr example_soup)"
  "textacy_pipeline example_world = (\<lambda>text. text)"
  "detect example_world = (\<lambda>t text. Inr ''en'')"
  "Image_open example_world = (\<lambda>data. if data = png_bytes then Inr \<lparr> img_format = Some ''PNG'', img_size = (1, 1) \<rparr>
                           else Inl UnidentifiedImageError)"
  "write_fails example_world = (\<lambda>t p. False)"
  by (simp_all add: example_world_def)

lemma cfg_sel:
  "output_dir CONFIG = ''ai_training_data''"
  "rate_limit_delay CONFIG = 1"
  "user_agents CONFIG = [''Mozilla/5.0 (Windows NT 10.0; Win64; x64) ...'',
                    ''Mozilla/5.0 (Macintosh; Intel Mac OS X 10_15_7) ...'']"
  "storage_formats CONFIG = [''jsonl'', ''parquet'']"
  "max_text_storage CONFIG = 1000"
  "retry_attempts CONFIG = 3"
  "retry_backoff CONFIG = 2"
  by (simp_all add: CONFIG_def)


lemma urlopen_numeral:
  "urlopen w (numeral k) u hs =
     bnd (emit (Request u hs)) (\<lambda>_.
     bnd next_tick (\<lambda>t.
     case server w t u of
       NoConnection \<Rightarrow> urlopen w (pred_numeral k) u hs
     | Answer st body \<Rightarrow>
         if st \<in> set status_forcelist then urlopen w (pred_numeral k) u hs
         else ret \<lparr> status_code = st, response_content = body \<rparr>))"
  unfolding numeral_eq_Suc [of k] by (rule urlopen.simps(2))

lemmas eval_defs = scrape_page_def scrape_page_body_def fetch_and_process_def index_def
  get_robots_parser_def read_def set_url_def RobotFileParser_def can_fetch_def random_choice_def
  retry_request_def session_get_def raise_for_status_def make_soup_def status_forcelist_def
  download_def download_body_def store_image_def store_text_def write_file_def
  flush_text_storage_def flush_format_def
  cfg_sel ew_sel initial_state_def prog_defs urlopen_numeral upt_conv_Cons






lemma scenario_images:
  "process_images CONFIG example_world
     [Some ''https://example.com/gone.png'', Some ''https://example.com/a.png''] ''example.com'' initial_state
   = (\<lparr> text_storage = [],
        image_storage = [\<lparr> image_url = ''https://example.com/a.png'',
            filename = image_filename ''example.com'' png_bytes ''PNG'', dimensions = (1, 1),
            format = ''PNG'', image_source_domain = ''example.com'', image_timestamp = 2 \<rparr>],
        files = [(ImageFile ''ai_training_data'' (image_filename ''example.com'' png_bytes ''PNG''),
                  ImageBytes png_bytes)],
        trace = [Request ''https://example.com/gone.png'' [],
                 Log ERROR (ErrorDownloadingImage ''https://example.com/gone.png'' (HTTPError 404)),
                 Request ''https://example.com/a.png'' [],
                 Log INFO (SavedImage (image_filename ''example.com'' png_bytes ''PNG''))],
        tick = 4 \<rparr>, Inr ())"
  by (simp add: eval_defs)




section \<open>Image failures\<close>

lemma download_returns: "snd (download cfg w u d s) = Inr ()"
  unfolding download_def by (rule handled_returns)

lemma image_step_returns:
  "snd ((case img of None \<Rightarrow> ret ()
         | Some img_url \<Rightarrow> if img_url \<noteq> [] \<and> prefix ''http'' img_url
                            then download cfg w img_url d else ret ()) s) = Inr ()"
  by (cases img) (simp_all add: download_returns ret_def)

lemma process_images_Cons:
  "process_images cfg w (img # rest) d s
     = process_images cfg w rest d (fst (process_images cfg w [img] d s))"
proof -
  let ?step = "case img of None \<Rightarrow> ret ()
         | Some img_url \<Rightarrow> if img_url \<noteq> [] \<and> prefix ''http'' img_url
                            then download cfg w img_url d else ret ()"
  obtain s1 where s1: "?step s = (s1, Inr ())"
    using image_step_returns [where img = img and cfg = cfg and w = w and d = d and s = s]
    by (cases "?step s") auto
  then show ?thesis by (simp add: bnd_def ret_def)
qed

lemma process_images_returns: "snd (process_images cfg w imgs d s) = Inr ()"
proof (induction imgs arbitrary: s)
  case Nil
  show ?case by (simp add: ret_def)
next
  case (Cons img imgs)
  show ?case by (subst process_images_Cons) (rule Cons.IH)
qed

lemma process_images_append:
  "process_images cfg w (xs @ ys) d s = process_images cfg w ys d (fst (process_images cfg w xs d s))"
proof (induction xs arbitrary: s)
  case Nil
  show ?case by (simp add: ret_def)
next
  case (Cons x xs)
  have "process_images cfg w ((x # xs) @ ys) d s
          = process_images cfg w (xs @ ys) d (fst (process_images cfg w [x] d s))"
    using process_images_Cons [of cfg w x "xs @ ys" d s] by simp
  also have "\<dots> = process_images cfg w ys d (fst (process_images cfg w xs d (fst (process_images cfg w [x] d s))))"
    by (rule Cons.IH)
  also have "process_images cfg w xs d (fst (process_images cfg w [x] d s)) = process_images cfg w (x # xs) d s"
    by (rule process_images_Cons [symmetric])
  finally show ?case .
qed

text \<open>
  C5. \<open>download\<close> never raises: an exception of its body (the request, the status, the
  decoding of the image, the format) is caught and logged with the URL of the image. It
  leaves the text buffer and the text files as they were. The loop over the images of a page
  never raises and leaves the text side untouched as well, and after any image, failed or
  not, it goes on with the images that follow, from the state that image left.
\<close>

theorem image_failure_isolated:
  "snd (download cfg w u d s) = Inr ()
   \<and> same_text s (fst (download cfg w u d s))
   \<and> (snd (download_body cfg w u d s) = Inl e \<longrightarrow>
        fst (download cfg w u d s) =
          (fst (download_body cfg w u d s))
            \<lparr>trace := trace (fst (download_body cfg w u d s)) @ [Log ERROR (ErrorDownloadingImage u e)]\<rparr>)
   \<and> snd (process_images cfg w imgs d s) = Inr ()
   \<and> same_text s (fst (process_images cfg w imgs d s))
   \<and> process_images cfg w (before @ img # after) d s
        = process_images cfg w after d
            (fst (process_images cfg w [img] d (fst (process_images cfg w before d s))))"
proof -
  have a: "same_text s (fst (download cfg w u d s))"
    using download_quiet(1) [of cfg w u d] by (simp add: steps_def)
  have b: "snd (download_body cfg w u d s) = Inl e \<longrightarrow>
        fst (download cfg w u d s) =
          (fst (download_body cfg w u d s))
            \<lparr>trace := trace (fst (download_body cfg w u d s)) @ [Log ERROR (ErrorDownloadingImage u e)]\<rparr>"
    unfolding download_def using handled_logs [of "download_body cfg w u d" s e] by blast
  have c: "same_text s (fst (process_images cfg w imgs d s))"
    using process_images_quiet [of cfg w imgs d] by (simp add: steps_def)
  have f: "process_images cfg w (before @ img # after) d s
        = process_images cfg w after d
            (fst (process_images cfg w [img] d (fst (process_images cfg w before d s))))"
    using process_images_append [of cfg w before "img # after" d s]
      process_images_Cons [of cfg w img after d "fst (process_images cfg w before d s)"]
    by simp
  from a b c f download_returns [of cfg w u d s] process_images_returns [of cfg w imgs d s]
  show ?thesis by blast
qed

theorem image_failure_isolated_witness:
  "snd (download_body CONFIG example_world ''https://example.com/gone.png'' ''example.com'' initial_state)
     = Inl (HTTPError 404)
   \<and> fst (download CONFIG example_world ''https://example.com/gone.png'' ''example.com'' initial_state)
     = initial_state\<lparr>trace := [Request ''https://example.com/gone.png'' [],
          Log ERROR (ErrorDownloadingImage ''https://example.com/gone.png'' (HTTPError 404))], tick := 1\<rparr>
   \<and> snd (download CONFIG example_world ''https://example.com/gone.png'' ''example.com'' initial_state) = Inr ()
   \<and> map image_url (image_storage (fst (process_images CONFIG example_world
        [Some ''https://example.com/gone.png'', Some ''https://example.com/a.png''] ''example.com'' initial_state)))
     = [''https://example.com/a.png'']
   \<and> text_storage (fst (process_images CONFIG example_world
        [Some ''https://example.com/gone.png'', Some ''https://example.com/a.png''] ''example.com'' initial_state))
     = text_storage initial_state"
proof -
  have body: "download_body CONFIG example_world ''https://example.com/gone.png'' ''example.com'' initial_state
     = (initial_state\<lparr>trace := [Request ''https://example.com/gone.png'' []], tick := 1\<rparr>, Inl (HTTPError 404))"
    by (simp add: eval_defs)
  note t = image_failure_isolated [where cfg = CONFIG and w = example_world
      and u = "''https://example.com/gone.png''" and d = "''example.com''" and s = initial_state
      and e = "HTTPError 404"
      and imgs = "[Some ''https://example.com/gone.png'', Some ''https://example.com/a.png'']"]
  from t body have 1: "fst (download CONFIG example_world ''https://example.com/gone.png'' ''example.com'' initial_state)
     = initial_state\<lparr>trace := [Request ''https://example.com/gone.png'' [],
          Log ERROR (ErrorDownloadingImage ''https://example.com/gone.png'' (HTTPError 404))], tick := 1\<rparr>"
    by (simp add: initial_state_def)
  from t have 2: "snd (download CONFIG example_world ''https://example.com/gone.png'' ''example.com'' initial_state) = Inr ()"
    by blast
  from t have 3: "text_storage (fst (process_images CONFIG example_world
        [Some ''https://example.com/gone.png'', Some ''https://example.com/a.png''] ''example.com'' initial_state))
     = text_storage initial_state"
    by (simp add: same_text_def)
  have 4: "map image_url (image_storage (fst (process_images CONFIG example_world
        [Some ''https://example.com/gone.png'', Some ''https://example.com/a.png''] ''example.com'' initial_state)))
     = [''https://example.com/a.png'']"
    by (subst scenario_images) simp
  from body 1 2 3 4 show ?thesis by simp
qed

section \<open>Image file names\<close>

text \<open>The digest of \<^verbatim>\<open>b"abc"\<close>, as FIPS 180-4 gives it.\<close>

lemma sha256_abc:
  "sha256_hexdigest [0x61, 0x62, 0x63]
     = ''ba7816bf8f01cfea414140de5dae2223b00361a396177a9cb410ff61f20015ad''"
  by code_simp









end
